theory Spec2Isabelle
  imports Complex_Main
begin

section \<open>Text primitives shared by the trainer, the predictor and the exported scorer\<close>

text \<open>
  A string is a list of characters, and a character stands for the code point of the same
  number: the model covers the code points U+0000 to U+00FF (ASCII and Latin-1), on which
  Python's \<^verbatim>\<open>str\<close> and JavaScript's strings agree character by character.

  \<^verbatim>\<open>str.lower()\<close> and \<^verbatim>\<open>String.prototype.toLowerCase()\<close> are the same map on
  this range: \<^verbatim>\<open>A-Z\<close> and the upper-case letters U+00C0 to U+00DE (but not the
  multiplication sign U+00D7) move up by 32.
\<close>

definition code_point :: "char \<Rightarrow> nat" where
  "code_point c = of_char c"

definition lower_char :: "char \<Rightarrow> char" where
  "lower_char c =
     (let n = code_point c in
      if (65 \<le> n \<and> n \<le> 90) \<or> (192 \<le> n \<and> n \<le> 222 \<and> n \<noteq> 215)
      then char_of (n + 32) else c)"

text \<open>The character class \<^verbatim>\<open>a-z0-9\<close> of both regular expressions.\<close>

definition is_az09 :: "char \<Rightarrow> bool" where
  "is_az09 c = (let n = code_point c in (97 \<le> n \<and> n \<le> 122) \<or> (48 \<le> n \<and> n \<le> 57))"

text \<open>
  The class \<^verbatim>\<open>\s\<close> is where the two regular-expression engines differ. In Python's
  \<^verbatim>\<open>re\<close> on a \<^verbatim>\<open>str\<close> pattern it is the set of characters for which
  \<^verbatim>\<open>str.isspace()\<close> holds: U+0009 to U+000D, the separators U+001C to U+001F, the
  space, U+0085 and U+00A0. In JavaScript it is WhiteSpace and LineTerminator: U+0009 to
  U+000D, the space and U+00A0 (and U+FEFF, outside this range), but neither U+001C to
  U+001F nor U+0085. \<^verbatim>\<open>str.strip()\<close> and \<^verbatim>\<open>trim()\<close> use the same two sets.
\<close>

definition py_isspace :: "char \<Rightarrow> bool" where
  "py_isspace c =
     (let n = code_point c in
      (9 \<le> n \<and> n \<le> 13) \<or> (28 \<le> n \<and> n \<le> 32) \<or> n = 133 \<or> n = 160)"

definition js_isspace :: "char \<Rightarrow> bool" where
  "js_isspace c = (let n = code_point c in (9 \<le> n \<and> n \<le> 13) \<or> n = 32 \<or> n = 160)"

text \<open>
  The three text operations of both pipelines, for a given class \<open>sp\<close> of white space:
  deleting every match of \<^verbatim>\<open>[^a-z0-9\s]\<close>, replacing every maximal match of
  \<^verbatim>\<open>\s+\<close> by one space, and removing leading and trailing white space.
\<close>

definition remove_special :: "(char \<Rightarrow> bool) \<Rightarrow> string \<Rightarrow> string" where
  "remove_special sp text = filter (\<lambda>c. is_az09 c \<or> sp c) text"

function collapse_ws :: "(char \<Rightarrow> bool) \<Rightarrow> string \<Rightarrow> string" where
  "collapse_ws sp [] = []"
| "collapse_ws sp (c # cs) =
     (if sp c then CHR '' '' # collapse_ws sp (dropWhile sp cs) else c # collapse_ws sp cs)"
  by pat_completeness auto
termination
  by (relation "measure (\<lambda>(sp, text). length text)")
     (auto simp: length_dropWhile_le less_Suc_eq_le)

definition strip_ws :: "(char \<Rightarrow> bool) \<Rightarrow> string \<Rightarrow> string" where
  "strip_ws sp text = rev (dropWhile sp (rev (dropWhile sp text)))"


section \<open>Trainer (train\_model.py)\<close>

text \<open>The exceptions that the modelled Python code can raise.\<close>

datatype py_error =
    KeyError string
  | PyTypeError
  | IndexError
  | AttributeError string
  | UnpicklingError
  | SystemExit

text \<open>
  \<^verbatim>\<open>preprocess_text(text)\<close>. Its argument is a cell of a text column: \<open>None\<close> is a
  missing value (\<^verbatim>\<open>pd.isna\<close>), for which the function returns the empty string, and
  \<open>Some s\<close> is the string \<open>s\<close>, on which \<^verbatim>\<open>str(text)\<close> is the identity.
\<close>

definition preprocess_text :: "string option \<Rightarrow> string" where
  "preprocess_text text =
     (case text of
        None \<Rightarrow> []
      | Some s \<Rightarrow>
          strip_ws py_isspace
            (collapse_ws py_isspace (remove_special py_isspace (map lower_char s))))"

text \<open>
  The data frame that \<^verbatim>\<open>pd.read_csv\<close> returns: a map from column names to columns.
  A column is a text column, whose cells are strings or missing, or a column of integers.
  \<^verbatim>\<open>df[name]\<close> raises \<^verbatim>\<open>KeyError\<close> when the frame has no such column.
\<close>

datatype series = ObjectSeries "string option list" | IntSeries "int list"

type_synonym dataframe = "string \<rightharpoonup> series"

text \<open>
  \<^verbatim>\<open>column.fillna('')\<close> used as text (concatenated with a string, or measured by
  \<^verbatim>\<open>len\<close>): the strings of a text column, with the empty string for a missing cell.
  Either use raises \<^verbatim>\<open>TypeError\<close> on a column of integers.
\<close>

fun text_of :: "series \<Rightarrow> py_error + string list" where
  "text_of (ObjectSeries cells) =
     Inr (map (\<lambda>cell. case cell of None \<Rightarrow> [] | Some s \<Rightarrow> s) cells)"
| "text_of (IntSeries ns) = Inl PyTypeError"

text \<open>\<^verbatim>\<open>x.split()\<close>: the maximal runs of characters that are not white space.\<close>

function py_split :: "string \<Rightarrow> string list" where
  "py_split text =
     (case dropWhile py_isspace text of
        [] \<Rightarrow> []
      | c # cs \<Rightarrow>
          (c # takeWhile (\<lambda>x. \<not> py_isspace x) cs) #
          py_split (dropWhile (\<lambda>x. \<not> py_isspace x) cs))"
  by pat_completeness auto
termination
proof (relation "measure length")
  fix s :: string and c cs
  assume "dropWhile py_isspace s = c # cs"
  then have "length (c # cs) \<le> length s"
    by (metis length_dropWhile_le)
  moreover have "length (dropWhile (\<lambda>x. \<not> py_isspace x) cs) \<le> length cs"
    by (rule length_dropWhile_le)
  ultimately show "(dropWhile (\<lambda>x. \<not> py_isspace x) cs, s) \<in> measure length"
    by simp
qed simp

text \<open>\<^verbatim>\<open>kw in x\<close> on strings: \<open>kw\<close> occurs in \<open>x\<close> as a substring.\<close>

fun py_in :: "string \<Rightarrow> string \<Rightarrow> bool" where
  "py_in kw [] = (kw = [])"
| "py_in kw (c # cs) = (take (length kw) (c # cs) = kw \<or> py_in kw cs)"

definition edu_keywords :: "string list" where
  "edu_keywords =
     [''tutorial'', ''lesson'', ''course'', ''learn'', ''explain'', ''guide'',
      ''how to'', ''introduction'', ''basics'', ''advanced'', ''concept'']"

definition ent_keywords :: "string list" where
  "ent_keywords =
     [''funny'', ''comedy'', ''prank'', ''fail'', ''compilation'', ''reaction'',
      ''vlog'', ''challenge'', ''gameplay'', ''music video'', ''song'']"

text \<open>\<^verbatim>\<open>sum(1 for kw in keywords if kw in x)\<close>.\<close>

definition keyword_count :: "string list \<Rightarrow> string \<Rightarrow> int" where
  "keyword_count keywords x = int (length (filter (\<lambda>kw. py_in kw x) keywords))"

text \<open>
  \<^verbatim>\<open>extract_features(df)\<close>. The first statement reads the column \<^verbatim>\<open>title\<close>, then the
  column \<^verbatim>\<open>description\<close>, in that order; the columns of one frame have the same
  number of rows.
\<close>

definition extract_features :: "dataframe \<Rightarrow> py_error + dataframe" where
  "extract_features df =
     (case df ''title'' of
        None \<Rightarrow> Inl (KeyError ''title'')
      | Some title_col \<Rightarrow>
     (case text_of title_col of
        Inl e \<Rightarrow> Inl e
      | Inr titles \<Rightarrow>
     (case df ''description'' of
        None \<Rightarrow> Inl (KeyError ''description'')
      | Some desc_col \<Rightarrow>
     (case text_of desc_col of
        Inl e \<Rightarrow> Inl e
      | Inr descriptions \<Rightarrow>
          (let combined_text =
                 map (\<lambda>(t, d). preprocess_text (Some (t @ '' '' @ d)))
                   (zip titles descriptions)
           in Inr (df(''combined_text'' \<mapsto> ObjectSeries (map Some combined_text),
                      ''title_length'' \<mapsto> IntSeries (map (\<lambda>t. int (length t)) titles),
                      ''desc_length'' \<mapsto> IntSeries (map (\<lambda>d. int (length d)) descriptions),
                      ''word_count'' \<mapsto>
                        IntSeries (map (\<lambda>x. int (length (py_split x))) combined_text),
                      ''edu_keyword_count'' \<mapsto>
                        IntSeries (map (keyword_count edu_keywords) combined_text),
                      ''ent_keyword_count'' \<mapsto>
                        IntSeries (map (keyword_count ent_keywords) combined_text))))))))"

text \<open>
  \<^verbatim>\<open>main()\<close> from the check of the required columns to the call of
  \<^verbatim>\<open>extract_features\<close>, on the frame read from the CSV file. \<open>Inr None\<close> is the early
  return after the message that the CSV must have the columns \<^verbatim>\<open>title\<close> and
  \<^verbatim>\<open>label\<close>; the printed counts are left out.
\<close>

definition train_main :: "dataframe \<Rightarrow> py_error + dataframe option" where
  "train_main df =
     (if \<not> list_all (\<lambda>col. col \<in> dom df) [''title'', ''label''] then Inr None
      else (case extract_features df of Inl e \<Rightarrow> Inl e | Inr df' \<Rightarrow> Inr (Some df')))"


section \<open>Predictor (predict.py)\<close>

text \<open>
  Line 58 of \<^verbatim>\<open>predict_video\<close>: the text that is handed to \<^verbatim>\<open>vectorizer.transform\<close>,
  \<^verbatim>\<open>f"{title} {description}".lower().strip()\<close>.
\<close>

definition predictor_text :: "string \<Rightarrow> string \<Rightarrow> string" where
  "predictor_text title description =
     strip_ws py_isspace (map lower_char (title @ '' '' @ description))"

text \<open>
  \<^verbatim>\<open>predict_video\<close> after a persisted pair has been loaded (the branch for the three
  scikit-learn back ends). The library calls \<^verbatim>\<open>vectorizer.transform\<close>,
  \<^verbatim>\<open>model.predict_proba\<close> and \<^verbatim>\<open>model.predict\<close> are parameters; the result is
  \<^verbatim>\<open>(prediction, probability)\<close>, or \<open>None\<close> where indexing the probabilities raises.
\<close>

definition predict_video ::
  "(string \<Rightarrow> 'x) \<Rightarrow> ('x \<Rightarrow> real list) \<Rightarrow> ('x \<Rightarrow> int) \<Rightarrow> string \<Rightarrow> string \<Rightarrow> (int \<times> real) option"
where
  "predict_video transform predict_proba predict_label title description =
     (let combined_text = predictor_text title description;
          text_vec = transform combined_text;
          probability = predict_proba text_vec;
          prediction = predict_label text_vec
      in case probability of
           [] \<Rightarrow> None
         | [p0] \<Rightarrow> Some (prediction, p0)
         | p0 # p1 # _ \<Rightarrow> Some (prediction, p1))"


section \<open>Exported scorer (the class VideoClassifier written by create\_js\_model\_loader)\<close>

text \<open>
  The exported JSON object, which is also the \<^verbatim>\<open>modelData\<close> the scorer is constructed
  from. A key that is absent from the object is \<open>None\<close>; \<^verbatim>\<open>type\<close> is \<open>mtype\<close>.
  The vocabulary is the object mapping each token to its index.
\<close>

record model_data =
  mtype :: string
  coefficients :: "real list option"
  intercept :: "real option"
  feature_log_prob :: "real list option"
  class_log_prior :: "real option"
  vocabulary :: "string \<rightharpoonup> nat"
  idf :: "real list"
  max_features :: nat
  ngram_range :: "nat \<times> nat"

text \<open>
  JavaScript numbers. A number is a finite value, one of the two infinities, or NaN. A
  finite value is a real number; the sign of a zero is not modelled (a zero divisor is
  taken as positive).

  The result of an arithmetic operation on finite values is the exact real result
  rounded to a double. The rounding is the parameter \<open>fl\<close> of every operation: \<open>fl r\<close>
  is the double nearest to \<open>r\<close>, or an infinity when \<open>r\<close> lies beyond the largest double
  (\<open>round_double\<close> below). \<^verbatim>\<open>Math.sqrt\<close> and \<^verbatim>\<open>Math.exp\<close> are taken to round their
  exact results in the same way.
  The operations on infinities and NaN are those of IEEE 754: NaN is absorbing, and
  \<open>0/0\<close>, \<open>\<infinity>/\<infinity>\<close>, \<open>\<infinity> - \<infinity>\<close> and \<open>0 * \<infinity>\<close> are NaN. Every comparison with
  NaN is false.

  Reading an array beyond its end gives \<^verbatim>\<open>undefined\<close>, as does reading a key that is
  absent; arithmetic converts \<^verbatim>\<open>undefined\<close> to NaN.
\<close>

datatype js_number = Num real | PosInf | NegInf | NaN

definition js_index :: "'a list \<Rightarrow> nat \<Rightarrow> 'a option" where
  "js_index xs i = (if i < length xs then Some (xs ! i) else None)"

definition to_number :: "real option \<Rightarrow> js_number" where
  "to_number v = (case v of None \<Rightarrow> NaN | Some x \<Rightarrow> Num x)"

fun js_neg :: "js_number \<Rightarrow> js_number" where
  "js_neg (Num x) = Num (- x)"
| "js_neg PosInf = NegInf"
| "js_neg NegInf = PosInf"
| "js_neg NaN = NaN"

fun js_abs :: "js_number \<Rightarrow> js_number" where
  "js_abs (Num x) = Num \<bar>x\<bar>"
| "js_abs PosInf = PosInf"
| "js_abs NegInf = PosInf"
| "js_abs NaN = NaN"

fun js_add :: "(real \<Rightarrow> js_number) \<Rightarrow> js_number \<Rightarrow> js_number \<Rightarrow> js_number" where
  "js_add fl (Num x) (Num y) = fl (x + y)"
| "js_add fl NaN b = NaN"
| "js_add fl a NaN = NaN"
| "js_add fl PosInf NegInf = NaN"
| "js_add fl NegInf PosInf = NaN"
| "js_add fl PosInf b = PosInf"
| "js_add fl a PosInf = PosInf"
| "js_add fl NegInf b = NegInf"
| "js_add fl a NegInf = NegInf"

definition js_sub :: "(real \<Rightarrow> js_number) \<Rightarrow> js_number \<Rightarrow> js_number \<Rightarrow> js_number" where
  "js_sub fl a b = js_add fl a (js_neg b)"

text \<open>The infinity of the sign of a product or quotient of two operands.\<close>

definition signed_inf :: "bool \<Rightarrow> bool \<Rightarrow> js_number" where
  "signed_inf positive_a positive_b = (if positive_a = positive_b then PosInf else NegInf)"

fun js_mul :: "(real \<Rightarrow> js_number) \<Rightarrow> js_number \<Rightarrow> js_number \<Rightarrow> js_number" where
  "js_mul fl (Num x) (Num y) = fl (x * y)"
| "js_mul fl NaN b = NaN"
| "js_mul fl a NaN = NaN"
| "js_mul fl (Num x) PosInf = (if x = 0 then NaN else signed_inf (0 < x) True)"
| "js_mul fl (Num x) NegInf = (if x = 0 then NaN else signed_inf (0 < x) False)"
| "js_mul fl PosInf (Num y) = (if y = 0 then NaN else signed_inf True (0 < y))"
| "js_mul fl NegInf (Num y) = (if y = 0 then NaN else signed_inf False (0 < y))"
| "js_mul fl PosInf PosInf = PosInf"
| "js_mul fl PosInf NegInf = NegInf"
| "js_mul fl NegInf PosInf = NegInf"
| "js_mul fl NegInf NegInf = PosInf"

fun js_div :: "(real \<Rightarrow> js_number) \<Rightarrow> js_number \<Rightarrow> js_number \<Rightarrow> js_number" where
  "js_div fl (Num x) (Num y) =
     (if y = 0 then (if x = 0 then NaN else signed_inf (0 < x) True) else fl (x / y))"
| "js_div fl NaN b = NaN"
| "js_div fl a NaN = NaN"
| "js_div fl (Num x) PosInf = Num 0"
| "js_div fl (Num x) NegInf = Num 0"
| "js_div fl PosInf (Num y) = signed_inf True (0 \<le> y)"
| "js_div fl NegInf (Num y) = signed_inf False (0 \<le> y)"
| "js_div fl PosInf b = NaN"
| "js_div fl NegInf b = NaN"

fun js_sqrt :: "(real \<Rightarrow> js_number) \<Rightarrow> js_number \<Rightarrow> js_number" where
  "js_sqrt fl (Num x) = (if x < 0 then NaN else fl (sqrt x))"
| "js_sqrt fl PosInf = PosInf"
| "js_sqrt fl NegInf = NaN"
| "js_sqrt fl NaN = NaN"

fun js_exp :: "(real \<Rightarrow> js_number) \<Rightarrow> js_number \<Rightarrow> js_number" where
  "js_exp fl (Num x) = fl (exp x)"
| "js_exp fl PosInf = PosInf"
| "js_exp fl NegInf = Num 0"
| "js_exp fl NaN = NaN"

text \<open>\<^verbatim>\<open>a > b\<close>.\<close>

fun js_gt :: "js_number \<Rightarrow> js_number \<Rightarrow> bool" where
  "js_gt (Num x) (Num y) = (x > y)"
| "js_gt NaN b = False"
| "js_gt a NaN = False"
| "js_gt PosInf PosInf = False"
| "js_gt PosInf b = True"
| "js_gt NegInf b = False"
| "js_gt (Num x) PosInf = False"
| "js_gt (Num x) NegInf = True"





datatype js_error = JsTypeError

text \<open>\<^verbatim>\<open>preprocessText(text)\<close>.\<close>

definition preprocessText :: "string \<Rightarrow> string" where
  "preprocessText text =
     strip_ws js_isspace
       (collapse_ws js_isspace (remove_special js_isspace (map lower_char text)))"

text \<open>
  \<^verbatim>\<open>text.split(' ')\<close> (every single space separates, so the empty string gives one empty
  word) and \<^verbatim>\<open>words.join(' ')\<close>.
\<close>

fun split_sp :: "string \<Rightarrow> string list" where
  "split_sp [] = [[]]"
| "split_sp (c # cs) =
     (if c = CHR '' '' then [] # split_sp cs
      else (case split_sp cs of [] \<Rightarrow> [[c]] | w # ws \<Rightarrow> (c # w) # ws))"

fun join_sp :: "string list \<Rightarrow> string" where
  "join_sp [] = []"
| "join_sp [w] = w"
| "join_sp (w # v # ws) = w @ CHR '' '' # join_sp (v # ws)"

text \<open>
  \<^verbatim>\<open>extractNgrams(text, n)\<close>. The loop runs while \<^verbatim>\<open>i <= words.length - n\<close>, a
  comparison of integers that is false from the start when \<open>n\<close> exceeds the number of
  words; on natural numbers it is \<open>i + n \<le> length words\<close>. In the loop
  \<^verbatim>\<open>words.slice(i, i + n)\<close> is within the array.
\<close>

function extractNgrams_loop :: "string list \<Rightarrow> nat \<Rightarrow> nat \<Rightarrow> string list \<Rightarrow> string list" where
  "extractNgrams_loop words n i ngrams =
     (if i + n \<le> length words
      then extractNgrams_loop words n (Suc i) (ngrams @ [join_sp (take n (drop i words))])
      else ngrams)"
  by pat_completeness auto
termination
  by (relation "measure (\<lambda>(words, n, i, ngrams). Suc (length words) - (i + n))") auto

definition extractNgrams :: "string \<Rightarrow> nat \<Rightarrow> string list" where
  "extractNgrams text n = extractNgrams_loop (split_sp text) n 0 []"

text \<open>
  \<^verbatim>\<open>vectorize(text)\<close>, in its four steps. First the n-grams that are collected from the
  processed text (the block commented "Extract unigrams and bigrams").
\<close>

definition collect_ngrams :: "nat \<times> nat \<Rightarrow> string \<Rightarrow> string list" where
  "collect_ngrams ngramRange processed =
     (if fst ngramRange \<le> 1 then extractNgrams processed 1 else []) @
     (if snd ngramRange \<ge> 2 then extractNgrams processed 2 else [])"

text \<open>
  \<^verbatim>\<open>this.idf[index] || 1\<close>: the weight at the index, and 1 when the weight is missing
  or zero.
\<close>

definition idf_or_1 :: "real list \<Rightarrow> nat \<Rightarrow> real" where
  "idf_or_1 weights index =
     (case js_index weights index of None \<Rightarrow> 1 | Some w \<Rightarrow> if w = 0 then 1 else w)"

text \<open>
  The \<^verbatim>\<open>forEach\<close> over the n-grams (the block commented "Map to vocabulary and apply
  IDF"). The assignment is guarded by \<^verbatim>\<open>index < this.maxFeatures\<close>, so it is always
  within the array.
\<close>

fun map_to_vocabulary :: "model_data \<Rightarrow> string list \<Rightarrow> real list \<Rightarrow> real list" where
  "map_to_vocabulary m [] features = features"
| "map_to_vocabulary m (ngram # ngrams) features =
     map_to_vocabulary m ngrams
       (case vocabulary m ngram of
          None \<Rightarrow> features
        | Some index \<Rightarrow>
            if index < max_features m then features[index := idf_or_1 (idf m) index]
            else features)"

text \<open>The feature array when the \<^verbatim>\<open>forEach\<close> has finished, before it is normalised.\<close>

definition weighted_features :: "model_data \<Rightarrow> string \<Rightarrow> real list" where
  "weighted_features m text =
     map_to_vocabulary m
       (collect_ngrams (ngram_range m) (preprocessText text))
       (replicate (max_features m) 0)"

text \<open>\<^verbatim>\<open>Math.sqrt(features.reduce((sum, x) => sum + x * x, 0))\<close>.\<close>

definition l2_norm :: "(real \<Rightarrow> js_number) \<Rightarrow> real list \<Rightarrow> js_number" where
  "l2_norm fl features =
     js_sqrt fl
       (foldl (\<lambda>sum x. js_add fl sum (js_mul fl (Num x) (Num x))) (Num 0) features)"

text \<open>
  The features before normalisation are finite numbers (weights read from the model
  data, 0 and 1); the vector returned holds the results of the divisions, or the
  features themselves when the guard \<^verbatim>\<open>norm > 0\<close> fails.
\<close>

definition vectorize :: "(real \<Rightarrow> js_number) \<Rightarrow> model_data \<Rightarrow> string \<Rightarrow> js_number list" where
  "vectorize fl m text =
     (let features = weighted_features m text;
          norm = l2_norm fl features
      in if js_gt norm (Num 0) then map (\<lambda>x. js_div fl (Num x) norm) features
         else map Num features)"

text \<open>
  \<^verbatim>\<open>predict(title, description = '')\<close>. The two loops run over the indices of
  \<^verbatim>\<open>features\<close>; \<open>i\<close> is the index of the head of the features still to visit.
  Indexing \<^verbatim>\<open>this.coefficients\<close> or \<^verbatim>\<open>this.featureLogProb\<close> when the key was
  absent from the model data throws a TypeError.
\<close>

fun lr_score ::
  "(real \<Rightarrow> js_number) \<Rightarrow> real list option \<Rightarrow> js_number list \<Rightarrow> nat \<Rightarrow> js_number \<Rightarrow>
   js_error + js_number"
where
  "lr_score fl coefs [] i score = Inr score"
| "lr_score fl coefs (f # fs) i score =
     (case coefs of
        None \<Rightarrow> Inl JsTypeError
      | Some cs \<Rightarrow>
          lr_score fl coefs fs (Suc i)
            (js_add fl score (js_mul fl (to_number (js_index cs i)) f)))"

fun nb_score ::
  "(real \<Rightarrow> js_number) \<Rightarrow> real list option \<Rightarrow> js_number list \<Rightarrow> nat \<Rightarrow> js_number \<Rightarrow>
   js_error + js_number"
where
  "nb_score fl logps [] i logProb = Inr logProb"
| "nb_score fl logps (f # fs) i logProb =
     (if js_gt f (Num 0) then
        (case logps of
           None \<Rightarrow> Inl JsTypeError
         | Some ps \<Rightarrow>
             nb_score fl logps fs (Suc i) (js_add fl logProb (to_number (js_index ps i))))
      else nb_score fl logps fs (Suc i) logProb)"

text \<open>\<^verbatim>\<open>1 / (1 + Math.exp(-score))\<close>.\<close>

definition sigmoid :: "(real \<Rightarrow> js_number) \<Rightarrow> js_number \<Rightarrow> js_number" where
  "sigmoid fl score = js_div fl (Num 1) (js_add fl (Num 1) (js_exp fl (js_neg score)))"

record score_result =
  prediction :: nat
  probability :: js_number
  confidence :: js_number

text \<open>
  The object literal that both branches of \<^verbatim>\<open>predict\<close> return:
  \<^verbatim>\<open>probability > 0.5 ? 1 : 0\<close>, the probability, and
  \<^verbatim>\<open>Math.abs(probability - 0.5) * 2\<close>.
\<close>

definition result_of :: "(real \<Rightarrow> js_number) \<Rightarrow> js_number \<Rightarrow> score_result" where
  "result_of fl p =
     \<lparr> prediction = (if js_gt p (Num (1 / 2)) then 1 else 0),
       probability = p,
       confidence = js_mul fl (js_abs (js_sub fl p (Num (1 / 2)))) (Num 2) \<rparr>"

text \<open>
  The result is \<open>Inr None\<close> when the function ends without a \<^verbatim>\<open>return\<close> (the model
  type is neither of the two). The initial score is \<^verbatim>\<open>this.intercept\<close> (or
  \<^verbatim>\<open>this.classLogPrior\<close>), \<^verbatim>\<open>undefined\<close> when the key is absent.
\<close>

definition predict ::
  "(real \<Rightarrow> js_number) \<Rightarrow> model_data \<Rightarrow> string \<Rightarrow> string \<Rightarrow> js_error + score_result option"
where
  "predict fl m title description =
     (let combinedText = title @ '' '' @ description;
          features = vectorize fl m combinedText
      in if mtype m = ''logistic_regression'' then
           (case lr_score fl (coefficients m) features 0 (to_number (intercept m)) of
              Inl e \<Rightarrow> Inl e
            | Inr score \<Rightarrow> Inr (Some (result_of fl (sigmoid fl score))))
         else if mtype m = ''naive_bayes'' then
           (case nb_score fl (feature_log_prob m) features 0
                   (to_number (class_log_prior m)) of
              Inl e \<Rightarrow> Inl e
            | Inr logProb \<Rightarrow> Inr (Some (result_of fl (sigmoid fl logProb))))
         else Inr None)"


section \<open>Exporter (export\_model\_for\_extension.py)\<close>

text \<open>
  The objects that \<^verbatim>\<open>joblib.load\<close> returns. A fitted model carries some of the
  attributes \<^verbatim>\<open>coef_\<close>, \<^verbatim>\<open>intercept_\<close>, \<^verbatim>\<open>feature_log_prob_\<close> and
  \<^verbatim>\<open>class_log_prior_\<close> (the fields \<open>m_coef\<close>, \<open>m_intercept\<close>,
  \<open>m_feature_log_prob\<close>, \<open>m_class_log_prior\<close>); \<open>None\<close> is an attribute the object
  does not have, so \<^verbatim>\<open>hasattr(model, 'coef_')\<close> is \<open>m_coef model \<noteq> None\<close>. The
  vectorizer carries \<^verbatim>\<open>vocabulary_\<close>, \<^verbatim>\<open>idf_\<close>, \<^verbatim>\<open>max_features\<close> and
  \<^verbatim>\<open>ngram_range\<close>.

  The dictionary \<^verbatim>\<open>vocabulary_\<close> is the list of its items. An index in it is a Python
  \<^verbatim>\<open>int\<close> or a \<^verbatim>\<open>numpy.int64\<close>: a vectorizer fitted with \<^verbatim>\<open>max_features\<close> set, as
  the trainer fits it, holds \<^verbatim>\<open>numpy.int64\<close> indices, and \<^verbatim>\<open>json.dump\<close> raises
  \<^verbatim>\<open>TypeError\<close> on such a value.
\<close>

record sk_model =
  m_coef :: "real list list option"
  m_intercept :: "real list option"
  m_feature_log_prob :: "real list list option"
  m_class_log_prior :: "real list option"

datatype py_int = PyInt nat | NumpyInt64 nat

record sk_vectorizer =
  v_vocabulary :: "(string \<times> py_int) list"
  v_idf :: "real list"
  v_max_features :: nat
  v_ngram_range :: "nat \<times> nat"

record persisted =
  model :: sk_model
  vectorizer :: sk_vectorizer

text \<open>
  The files the exporter reads and writes: a persisted pair, an exported JSON object (a
  file that \<^verbatim>\<open>json.dump\<close> has written completely is identified with the object it
  holds), the beginning of a JSON text that \<^verbatim>\<open>json.dump\<close> left behind when it raised,
  and the JavaScript loader. \<^verbatim>\<open>json.dump\<close> writes the keys in the order of the
  dictionary, piece by piece, so the text it leaves behind begins with the key
  \<^verbatim>\<open>type\<close>: \<open>TruncatedJson t\<close> is such a text with the value \<open>t\<close> of that key.
\<close>

datatype file_content =
    Pickle persisted
  | Json model_data
  | TruncatedJson string
  | ModelLoaderJs

type_synonym filesystem = "string \<rightharpoonup> file_content"

text \<open>
  The console: one constructor for each message. \<open>NotSupported\<close> is the line
  \<^verbatim>\<open>Model type not supported for JSON export\<close>; \<open>ProductionNote\<close> stands for the
  lines that follow a successful export (the file size and the note).
\<close>

datatype console =
    ModelNotFound string
  | LoadingModel string
  | NotSupported
  | ConsiderTfjsOrOnnx
  | ModelExported string
  | ProductionNote
  | LoaderCreated string

text \<open>
  A run of the exporter ends with an exception, and the file system as it is at that
  moment, or returns with the messages printed and the file system.
\<close>

type_synonym export_result = "py_error \<times> filesystem + console list \<times> filesystem"

text \<open>Python's \<^verbatim>\<open>xs[i]\<close> for an index that is not negative.\<close>

definition py_index :: "'a list \<Rightarrow> nat \<Rightarrow> py_error + 'a" where
  "py_index xs i = (if i < length xs then Inr (xs ! i) else Inl IndexError)"

definition model_path_of :: "string \<Rightarrow> string" where
  "model_path_of model_type = ''models/'' @ model_type @ ''_model.pkl''"

text \<open>What \<^verbatim>\<open>json.dump\<close> writes for an index, if it can serialise it.\<close>

fun json_int :: "py_int \<Rightarrow> nat option" where
  "json_int (PyInt n) = Some n"
| "json_int (NumpyInt64 n) = None"

text \<open>The JSON object that a dictionary of serialisable indices is written as.\<close>

definition json_vocabulary :: "(string \<times> py_int) list \<Rightarrow> (string \<rightharpoonup> nat)" where
  "json_vocabulary items tok =
     (case map_of items tok of None \<Rightarrow> None | Some index \<Rightarrow> json_int index)"

text \<open>
  Lines 66 to 76 of \<^verbatim>\<open>export_to_json\<close>: opening the output file, which truncates
  it, \<^verbatim>\<open>json.dump\<close>, and the messages. \<open>items\<close> is the dictionary
  \<^verbatim>\<open>vectorizer.vocabulary_\<close> that the export data holds as it is. When one of its
  indices cannot be serialised, \<^verbatim>\<open>json.dump\<close> raises \<^verbatim>\<open>TypeError\<close> after the
  beginning of the text (the keys before \<^verbatim>\<open>vocabulary\<close>) has been written.
\<close>

definition write_export ::
  "model_data \<Rightarrow> (string \<times> py_int) list \<Rightarrow> string \<Rightarrow> string \<Rightarrow> filesystem \<Rightarrow> export_result"
where
  "write_export export_data items model_path output_file fs =
     (if list_all (\<lambda>(tok, index). json_int index \<noteq> None) items
      then Inr ([LoadingModel model_path, ModelExported output_file, ProductionNote],
                fs(output_file \<mapsto> Json export_data))
      else Inl (PyTypeError, fs(output_file \<mapsto> TruncatedJson (mtype export_data))))"

text \<open>
  \<^verbatim>\<open>export_to_json(model_type, output_file)\<close> on a file system: the messages printed
  and the file system afterwards, or the exception raised.
\<close>

definition export_to_json :: "string \<Rightarrow> string \<Rightarrow> filesystem \<Rightarrow> export_result" where
  "export_to_json model_type output_file fs =
     (let model_path = model_path_of model_type in
      case fs model_path of
        None \<Rightarrow> Inr ([ModelNotFound model_path], fs)
      | Some (Json j) \<Rightarrow> Inl (UnpicklingError, fs)
      | Some (TruncatedJson t) \<Rightarrow> Inl (UnpicklingError, fs)
      | Some ModelLoaderJs \<Rightarrow> Inl (UnpicklingError, fs)
      | Some (Pickle data) \<Rightarrow>
          (let m = model data; v = vectorizer data in
           case m_coef m of
             Some rows \<Rightarrow>
               (case py_index rows 0 of
                  Inl e \<Rightarrow> Inl (e, fs)
                | Inr coef \<Rightarrow>
                    (case (case m_intercept m of
                             None \<Rightarrow> Inr 0
                           | Some bs \<Rightarrow> py_index bs 0) of
                       Inl e \<Rightarrow> Inl (e, fs)
                     | Inr intercept_value \<Rightarrow>
                         write_export
                           \<lparr> mtype = ''logistic_regression'',
                             coefficients = Some coef,
                             intercept = Some intercept_value,
                             feature_log_prob = None,
                             class_log_prior = None,
                             vocabulary = json_vocabulary (v_vocabulary v),
                             idf = v_idf v,
                             max_features = v_max_features v,
                             ngram_range = v_ngram_range v \<rparr>
                           (v_vocabulary v) model_path output_file fs))
           | None \<Rightarrow>
               (case m_feature_log_prob m of
                  Some rows \<Rightarrow>
                    (case py_index rows 1 of
                       Inl e \<Rightarrow> Inl (e, fs)
                     | Inr logp \<Rightarrow>
                         (case m_class_log_prior m of
                            None \<Rightarrow> Inl (AttributeError ''class_log_prior_'', fs)
                          | Some priors \<Rightarrow>
                              (case py_index priors 1 of
                                 Inl e \<Rightarrow> Inl (e, fs)
                               | Inr prior \<Rightarrow>
                                   write_export
                                     \<lparr> mtype = ''naive_bayes'',
                                       coefficients = None,
                                       intercept = None,
                                       feature_log_prob = Some logp,
                                       class_log_prior = Some prior,
                                       vocabulary = json_vocabulary (v_vocabulary v),
                                       idf = v_idf v,
                                       max_features = v_max_features v,
                                       ngram_range = v_ngram_range v \<rparr>
                                     (v_vocabulary v) model_path output_file fs)))
                | None \<Rightarrow>
                    Inr ([LoadingModel model_path, NotSupported, ConsiderTfjsOrOnnx], fs))))"

definition create_js_model_loader :: "string \<Rightarrow> filesystem \<Rightarrow> console list \<times> filesystem" where
  "create_js_model_loader output_file fs =
     ([LoaderCreated output_file], fs(output_file \<mapsto> ModelLoaderJs))"

text \<open>
  The script's entry point: \<^verbatim>\<open>--model\<close> is one of the three choices (the argument
  parser exits otherwise), then \<^verbatim>\<open>export_to_json(args.model)\<close> and
  \<^verbatim>\<open>create_js_model_loader()\<close> run with their default output files. An exception of
  \<^verbatim>\<open>export_to_json\<close> ends the script.
\<close>

definition export_main :: "string \<Rightarrow> filesystem \<Rightarrow> export_result" where
  "export_main model_arg fs =
     (if model_arg \<notin> set [''naive_bayes'', ''logistic_regression'', ''random_forest'']
      then Inl (SystemExit, fs)
      else (case export_to_json model_arg ''models/model_for_extension.json'' fs of
              Inl e \<Rightarrow> Inl e
            | Inr (out1, fs1) \<Rightarrow>
                (case create_js_model_loader ''models/model_loader.js'' fs1 of
                   (out2, fs2) \<Rightarrow> Inr (out1 @ out2, fs2))))"


section \<open>Notions used in the proofs\<close>

text \<open>
  A string is single-spaced when each of its white-space characters is a space that is
  not followed by another white-space character: the shape \<open>collapse_ws\<close> produces.
\<close>

fun single_spaced :: "(char \<Rightarrow> bool) \<Rightarrow> string \<Rightarrow> bool" where
  "single_spaced sp [] = True"
| "single_spaced sp [c] = (sp c \<longrightarrow> c = CHR '' '')"
| "single_spaced sp (c # d # cs) =
     ((sp c \<longrightarrow> c = CHR '' '' \<and> \<not> sp d) \<and> single_spaced sp (d # cs))"

text \<open>The pipeline of both sides, for a class \<open>sp\<close> of white space.\<close>

definition pipeline :: "(char \<Rightarrow> bool) \<Rightarrow> string \<Rightarrow> string" where
  "pipeline sp s = strip_ws sp (collapse_ws sp (remove_special sp (map lower_char s)))"


text \<open>
  The characters of the modelled range on which the two classes of white space differ.
\<close>

definition divergent :: "char \<Rightarrow> bool" where
  "divergent c = (let n = code_point c in (28 \<le> n \<and> n \<le> 31) \<or> n = 133)"

text \<open>
  The n-grams of a list of words as the specification describes them: the strings
  obtained by joining \<open>n\<close> consecutive words, for every \<open>n\<close> from \<open>min_n\<close> to
  \<open>max_n\<close>.
\<close>

definition spec_ngrams :: "nat \<Rightarrow> nat \<Rightarrow> string list \<Rightarrow> string set" where
  "spec_ngrams min_n max_n words =
     {join_sp g | g. (\<exists>before after. words = before @ g @ after) \<and>
                     min_n \<le> length g \<and> length g \<le> max_n}"

text \<open>
  What the scorer's theorems ask of the rounding: 0 and 1 are doubles, and the rounded
  value of a real number has its sign (so it is never NaN). Exact arithmetic (the
  rounding \<open>Num\<close>) and the rounding to the nearest double have these properties.
\<close>

definition rounding :: "(real \<Rightarrow> js_number) \<Rightarrow> bool" where
  "rounding fl \<longleftrightarrow>
     fl 0 = Num 0 \<and> fl 1 = Num 1 \<and>
     (\<forall>x. 0 \<le> x \<longrightarrow> fl x = PosInf \<or> (\<exists>y. 0 \<le> y \<and> fl x = Num y)) \<and>
     (\<forall>x. x \<le> 0 \<longrightarrow> fl x = NegInf \<or> (\<exists>y. y \<le> 0 \<and> fl x = Num y))"







definition short_coef_model :: model_data where
  "short_coef_model =
     \<lparr> mtype = ''logistic_regression'', coefficients = Some [1 / 2], intercept = Some 0,
       feature_log_prob = None, class_log_prior = None,
       vocabulary = [''a'' \<mapsto> 0], idf = [1], max_features = 2, ngram_range = (1, 2) \<rparr>"

definition two_column_csv :: dataframe where
  "two_column_csv =
     [''title'' \<mapsto> ObjectSeries [Some ''Python Tutorial for Beginners''],
      ''label'' \<mapsto> IntSeries [1]]"

definition example_vectorizer :: sk_vectorizer where
  "example_vectorizer =
     \<lparr> v_vocabulary = [(''a'', PyInt 0), (''b'', PyInt 1)], v_idf = [1, 1],
       v_max_features = 5000, v_ngram_range = (1, 2) \<rparr>"

definition forest_pair :: persisted where
  "forest_pair =
     \<lparr> model = \<lparr> m_coef = None, m_intercept = None,
                 m_feature_log_prob = None, m_class_log_prior = None \<rparr>,
       vectorizer = example_vectorizer \<rparr>"

definition linear_pair :: persisted where
  "linear_pair =
     \<lparr> model = \<lparr> m_coef = Some [[1, - 1]], m_intercept = Some [0],
                 m_feature_log_prob = None, m_class_log_prior = None \<rparr>,
       vectorizer = example_vectorizer \<rparr>"


text \<open>
  A file system with a persisted random forest, and one in which a persisted linear
  model lies under the file name of the naive-bayes model.
\<close>

definition forest_fs :: filesystem where
  "forest_fs = [model_path_of ''random_forest'' \<mapsto> Pickle forest_pair]"

definition misnamed_fs :: filesystem where
  "misnamed_fs = [model_path_of ''naive_bayes'' \<mapsto> Pickle linear_pair]"

text \<open>
  A linear model persisted with a vectorizer whose indices are \<^verbatim>\<open>numpy.int64\<close>
  values, under its own file name.
\<close>

definition fitted_vectorizer :: sk_vectorizer where
  "fitted_vectorizer =
     \<lparr> v_vocabulary = [(''a'', NumpyInt64 0), (''b'', NumpyInt64 1)], v_idf = [1, 1],
       v_max_features = 5000, v_ngram_range = (1, 2) \<rparr>"

definition fitted_pair :: persisted where
  "fitted_pair =
     \<lparr> model = \<lparr> m_coef = Some [[1, - 1]], m_intercept = Some [0],
                 m_feature_log_prob = None, m_class_log_prior = None \<rparr>,
       vectorizer = fitted_vectorizer \<rparr>"

definition fitted_fs :: filesystem where
  "fitted_fs = [model_path_of ''logistic_regression'' \<mapsto> Pickle fitted_pair]"


section \<open>Properties of the text pipeline\<close>

lemma collapse_ws_chars:
  "x \<in> set (collapse_ws sp s) \<Longrightarrow> x = CHR '' '' \<or> (x \<in> set s \<and> \<not> sp x)"
  by (induction sp s rule: collapse_ws.induct) (auto split: if_splits dest: set_dropWhileD)

lemma single_spaced_collapse:
  assumes "sp (CHR '' '')"
  shows "single_spaced sp (collapse_ws sp s)"
proof (induction sp s rule: collapse_ws.induct)
  case (1 sp)
  then show ?case by simp
next
  case (2 sp c cs)
  show ?case
  proof (cases "sp c")
    case True
    show ?thesis
    proof (cases "dropWhile sp cs")
      case Nil
      then have "collapse_ws sp (c # cs) = [CHR '' '']"
        using True by (simp del: dropWhile_eq_Nil_conv)
      then show ?thesis by simp
    next
      case (Cons d ds)
      then have "\<not> sp d" using hd_dropWhile[of sp cs] by auto
      then show ?thesis using True Cons 2 by simp
    qed
  next
    case False
    then show ?thesis using 2 by (cases "collapse_ws sp cs") auto
  qed
qed

lemma collapse_ws_id: "single_spaced sp s \<Longrightarrow> collapse_ws sp s = s"
proof (induction sp s rule: single_spaced.induct)
  case (3 sp c d cs)
  then show ?case by auto
qed auto

lemma single_spaced_tl: "single_spaced sp (c # cs) \<Longrightarrow> single_spaced sp cs"
  by (cases cs) auto

lemma single_spaced_dropWhile: "single_spaced sp s \<Longrightarrow> single_spaced sp (dropWhile P s)"
  by (induction s) (auto dest: single_spaced_tl)

lemma single_spaced_prefix: "single_spaced sp (xs @ ys) \<Longrightarrow> single_spaced sp xs"
proof (induction sp xs rule: single_spaced.induct)
  case (2 sp c)
  then show ?case by (cases ys) auto
qed auto

lemma rstrip_prefix: "s = rev (dropWhile P (rev s)) @ rev (takeWhile P (rev s))"
  by (metis rev_append rev_rev_ident takeWhile_dropWhile_id)

lemma single_spaced_strip: "single_spaced sp s \<Longrightarrow> single_spaced sp (strip_ws sp s)"
  unfolding strip_ws_def
  by (metis rstrip_prefix single_spaced_dropWhile single_spaced_prefix)

lemma strip_ws_chars: "x \<in> set (strip_ws sp s) \<Longrightarrow> x \<in> set s"
  unfolding strip_ws_def by (auto dest!: set_dropWhileD)

lemma strip_ws_idem: "strip_ws sp (strip_ws sp s) = strip_ws sp s"
proof -
  define a where "a = dropWhile sp s"
  define b where "b = rev (dropWhile sp (rev a))"
  have ab: "a = b @ rev (takeWhile sp (rev a))"
    unfolding b_def by (rule rstrip_prefix)
  have "dropWhile sp b = b"
  proof (cases b)
    case Nil
    then show ?thesis by simp
  next
    case (Cons x xs)
    have "a = x # (xs @ rev (takeWhile sp (rev a)))"
      using ab unfolding Cons by simp
    then have "a \<noteq> []" "hd a = x"
      by (metis list.distinct(1), metis list.sel(1))
    then have "\<not> sp x" unfolding a_def using hd_dropWhile[of sp s] by auto
    then show ?thesis using Cons by simp
  qed
  moreover have "rev (dropWhile sp (rev b)) = b"
    unfolding b_def by simp
  ultimately show ?thesis
    unfolding strip_ws_def a_def b_def by simp
qed

lemma preprocess_text_pipeline: "preprocess_text (Some s) = pipeline py_isspace s"
  by (simp add: preprocess_text_def pipeline_def)

lemma preprocessText_pipeline: "preprocessText s = pipeline js_isspace s"
  by (simp add: preprocessText_def pipeline_def)

lemma pipeline_chars:
  assumes "x \<in> set (pipeline sp s)"
  shows "x = CHR '' '' \<or> is_az09 x"
proof -
  from assms have "x \<in> set (collapse_ws sp (remove_special sp (map lower_char s)))"
    unfolding pipeline_def by (rule strip_ws_chars)
  then show ?thesis
    by (auto dest!: collapse_ws_chars simp: remove_special_def)
qed

lemma lower_char_fixed: "x = CHR '' '' \<or> is_az09 x \<Longrightarrow> lower_char x = x"
  by (auto simp: lower_char_def is_az09_def code_point_def Let_def)

lemma pipeline_idem:
  assumes sp: "sp (CHR '' '')"
  shows "pipeline sp (pipeline sp s) = pipeline sp s"
proof -
  let ?w = "pipeline sp s"
  have chars: "\<And>x. x \<in> set ?w \<Longrightarrow> x = CHR '' '' \<or> is_az09 x"
    by (rule pipeline_chars)
  have 1: "map lower_char ?w = ?w"
    using chars by (simp add: map_idI lower_char_fixed)
  have 2: "remove_special sp ?w = ?w"
    unfolding remove_special_def using chars sp by (auto simp: filter_id_conv)
  have "single_spaced sp ?w"
    unfolding pipeline_def by (intro single_spaced_strip single_spaced_collapse sp)
  then have 3: "collapse_ws sp ?w = ?w" by (rule collapse_ws_id)
  have 4: "strip_ws sp ?w = ?w"
    unfolding pipeline_def by (rule strip_ws_idem)
  show ?thesis
    by (subst (1) pipeline_def) (simp only: 1 2 3 4)
qed

lemma py_isspace_space: "py_isspace (CHR '' '')"
  by (simp add: py_isspace_def code_point_def)

lemma js_isspace_space: "js_isspace (CHR '' '')"
  by (simp add: js_isspace_def code_point_def)

text \<open>
  C9. The trainer's \<^verbatim>\<open>preprocess_text\<close> is idempotent on every cell (a string or a
  missing value), and so is the exported scorer's \<^verbatim>\<open>preprocessText\<close> on every string:
  normalising the normalised text gives the same text.
\<close>

theorem preprocessing_idempotent:
  "preprocess_text (Some (preprocess_text t)) = preprocess_text t \<and>
   preprocessText (preprocessText s) = preprocessText s"
proof
  show "preprocess_text (Some (preprocess_text t)) = preprocess_text t"
  proof (cases t)
    case None
    then show ?thesis by (simp add: preprocess_text_def strip_ws_def remove_special_def)
  next
    case (Some u)
    then show ?thesis
      by (simp only: preprocess_text_pipeline pipeline_idem [of py_isspace, OF py_isspace_space])
  qed
  show "preprocessText (preprocessText s) = preprocessText s"
    by (simp only: preprocessText_pipeline pipeline_idem [of js_isspace, OF js_isspace_space])
qed

section \<open>The two normalisations compared\<close>

lemma collapse_ws_cong:
  "(\<And>c. c \<in> set s \<Longrightarrow> sp c = sp' c) \<Longrightarrow> collapse_ws sp s = collapse_ws sp' s"
proof (induction sp s rule: collapse_ws.induct)
  case (1 sp)
  then show ?case by simp
next
  case (2 sp c cs)
  have dw: "dropWhile sp cs = dropWhile sp' cs"
    using 2(3) by (intro dropWhile_cong) auto
  show ?case
  proof (cases "sp c")
    case True
    then have "sp' c" using 2(3) by auto
    moreover have "collapse_ws sp (dropWhile sp cs) = collapse_ws sp' (dropWhile sp cs)"
      using 2(1)[OF True] 2(3) by (auto dest: set_dropWhileD)
    ultimately show ?thesis using True dw by simp
  next
    case False
    then have "\<not> sp' c" using 2(3) by auto
    then show ?thesis using False 2(2) 2(3) by simp
  qed
qed

lemma strip_ws_cong:
  assumes "\<And>c. c \<in> set s \<Longrightarrow> sp c = sp' c"
  shows "strip_ws sp s = strip_ws sp' s"
proof -
  have 1: "dropWhile sp s = dropWhile sp' s"
    using assms by (intro dropWhile_cong) auto
  have "dropWhile sp (rev (dropWhile sp' s)) = dropWhile sp' (rev (dropWhile sp' s))"
    using assms by (intro dropWhile_cong) (auto dest: set_dropWhileD)
  then show ?thesis unfolding strip_ws_def 1 by simp
qed

lemma isspace_agree: "\<not> divergent c \<Longrightarrow> js_isspace c = py_isspace c"
  by (auto simp: divergent_def js_isspace_def py_isspace_def Let_def)

lemma divergent_lower: "divergent (lower_char c) \<Longrightarrow> divergent c"
  by (auto simp: divergent_def lower_char_def Let_def code_point_def split: if_splits)

lemma pipeline_agree:
  assumes "\<And>c. c \<in> set s \<Longrightarrow> \<not> divergent c"
  shows "pipeline js_isspace s = pipeline py_isspace s"
proof -
  let ?l = "map lower_char s"
  have l: "\<And>c. c \<in> set ?l \<Longrightarrow> js_isspace c = py_isspace c"
    using assms by (auto intro!: isspace_agree dest: divergent_lower)
  have 1: "remove_special js_isspace ?l = remove_special py_isspace ?l"
    unfolding remove_special_def using l by (intro filter_cong) auto
  let ?r = "remove_special py_isspace ?l"
  have r: "\<And>c. c \<in> set ?r \<Longrightarrow> js_isspace c = py_isspace c"
    using l by (auto simp: remove_special_def)
  have 2: "collapse_ws js_isspace ?r = collapse_ws py_isspace ?r"
    using r by (rule collapse_ws_cong)
  let ?c = "collapse_ws py_isspace ?r"
  have c: "\<And>c. c \<in> set ?c \<Longrightarrow> js_isspace c = py_isspace c"
    using r by (auto dest!: collapse_ws_chars simp: js_isspace_space py_isspace_space)
  have 3: "strip_ws js_isspace ?c = strip_ws py_isspace ?c"
    using c by (rule strip_ws_cong)
  show ?thesis unfolding pipeline_def 1 2 3 ..
qed

text \<open>
  On every string without the separators U+001C to U+001F and without U+0085 the scorer's
  normalisation returns the string that the trainer's preprocessing returns.
\<close>

lemma normalization_agrees:
  assumes "\<And>c. c \<in> set s \<Longrightarrow> \<not> divergent c"
  shows "preprocessText s = preprocess_text (Some s)"
  using pipeline_agree [OF assms]
  by (simp only: preprocessText_pipeline preprocess_text_pipeline)

text \<open>
  C1. The scorer's normalisation is not the trainer's on every string. The string
  \<^verbatim>\<open>a\x1cb\<close> holds the separator U+001C, which Python's \<^verbatim>\<open>\s\<close> matches and
  JavaScript's does not: the trainer keeps it and collapses it to a space, the scorer
  deletes it.
\<close>

theorem normalization_differs_on_separator:
  "preprocess_text (Some [CHR ''a'', CHR 0x1C, CHR ''b'']) = ''a b'' \<and>
   preprocessText [CHR ''a'', CHR 0x1C, CHR ''b''] = ''ab''"
  by code_simp

text \<open>
  C8. The predictor does not apply the trainer's preprocessing: for the title
  \<^verbatim>\<open>C++ Tutorial!\<close> and an empty description it hands \<^verbatim>\<open>c++ tutorial!\<close> to the
  vectorizer (lower-cased and stripped only), where the trainer's preprocessing of the
  same combined text gives \<^verbatim>\<open>c tutorial\<close>.
\<close>

theorem predictor_text_not_preprocessed:
  "predictor_text ''C++ Tutorial!'' '''' = ''c++ tutorial!'' \<and>
   preprocess_text (Some (''C++ Tutorial!'' @ '' '' @ '''')) = ''c tutorial'' \<and>
   predict_video transform predict_proba predict_label ''C++ Tutorial!'' '''' =
     (case predict_proba (transform ''c++ tutorial!'') of
        [] \<Rightarrow> None
      | [p0] \<Rightarrow> Some (predict_label (transform ''c++ tutorial!''), p0)
      | p0 # p1 # _ \<Rightarrow> Some (predict_label (transform ''c++ tutorial!''), p1))"
proof -
  have 1: "predictor_text ''C++ Tutorial!'' '''' = ''c++ tutorial!''" by code_simp
  have 2: "preprocess_text (Some (''C++ Tutorial!'' @ '' '' @ '''')) = ''c tutorial''"
    by code_simp
  show ?thesis
    unfolding predict_video_def 1 using 2 by (simp add: Let_def)
qed


section \<open>N-gram extraction\<close>

lemma extractNgrams_loop_eq:
  "extractNgrams_loop ws n i acc =
     acc @ map (\<lambda>k. join_sp (take n (drop k ws))) [i..<Suc (length ws) - n]"
proof (induction ws n i acc rule: extractNgrams_loop.induct)
  case (1 ws n i acc)
  show ?case
  proof (cases "i + n \<le> length ws")
    case True
    then have "[i..<Suc (length ws) - n] = i # [Suc i..<Suc (length ws) - n]"
      by (intro upt_conv_Cons) arith
    then show ?thesis using True 1 by (subst extractNgrams_loop.simps) simp
  next
    case False
    then have "[i..<Suc (length ws) - n] = []" by simp
    then show ?thesis using False by (subst extractNgrams_loop.simps) simp
  qed
qed

text \<open>A window of \<open>n\<close> words starting at some position is a run of \<open>n\<close> consecutive words.\<close>

lemma window_iff:
  "(\<exists>k. k + n \<le> length ws \<and> g = take n (drop k ws)) \<longleftrightarrow>
   (length g = n \<and> (\<exists>before after. ws = before @ g @ after))"
proof
  assume "\<exists>k. k + n \<le> length ws \<and> g = take n (drop k ws)"
  then obtain k where k: "k + n \<le> length ws" and g: "g = take n (drop k ws)" by blast
  have "length g = n" using k g by simp
  moreover have "ws = take k ws @ g @ drop n (drop k ws)"
    unfolding g by (simp del: drop_drop)
  ultimately show "length g = n \<and> (\<exists>before after. ws = before @ g @ after)" by blast
next
  assume "length g = n \<and> (\<exists>before after. ws = before @ g @ after)"
  then obtain before after where n: "length g = n" and ws: "ws = before @ g @ after"
    by blast
  have "length before + n \<le> length ws" using n ws by simp
  moreover have "g = take n (drop (length before) ws)" using n ws by simp
  ultimately show "\<exists>k. k + n \<le> length ws \<and> g = take n (drop k ws)" by blast
qed

lemma set_extractNgrams:
  "set (extractNgrams text n) =
   {join_sp g | g. length g = n \<and> (\<exists>before after. split_sp text = before @ g @ after)}"
proof -
  let ?ws = "split_sp text"
  have "set (extractNgrams text n) =
        (\<lambda>k. join_sp (take n (drop k ?ws))) ` {k. k + n \<le> length ?ws}"
  proof -
    have "{0..<Suc (length ?ws) - n} = {k. k + n \<le> length ?ws}" by auto
    then show ?thesis
      unfolding extractNgrams_def extractNgrams_loop_eq by simp
  qed
  also have "\<dots> = {join_sp g | g. \<exists>k. k + n \<le> length ?ws \<and> g = take n (drop k ?ws)}"
    by blast
  finally show ?thesis unfolding window_iff .
qed

lemma spec_ngrams_Union:
  "spec_ngrams min_n max_n ws =
   (\<Union>n\<in>{min_n..max_n}.
      {join_sp g | g. length g = n \<and> (\<exists>before after. ws = before @ g @ after)})"
proof (intro set_eqI iffI)
  fix x assume "x \<in> spec_ngrams min_n max_n ws"
  then obtain g where "x = join_sp g" "\<exists>before after. ws = before @ g @ after"
    "min_n \<le> length g" "length g \<le> max_n"
    unfolding spec_ngrams_def by blast
  then show "x \<in> (\<Union>n\<in>{min_n..max_n}.
      {join_sp g | g. length g = n \<and> (\<exists>before after. ws = before @ g @ after)})"
    by (intro UN_I[of "length g"]) auto
next
  fix x assume "x \<in> (\<Union>n\<in>{min_n..max_n}.
      {join_sp g | g. length g = n \<and> (\<exists>before after. ws = before @ g @ after)})"
  then obtain g where "x = join_sp g" "\<exists>before after. ws = before @ g @ after"
    "min_n \<le> length g" "length g \<le> max_n"
    by clarsimp blast
  then show "x \<in> spec_ngrams min_n max_n ws"
    unfolding spec_ngrams_def by blast
qed

text \<open>
  C2, as amended. For every \<^verbatim>\<open>ngram_range\<close> within 1 and 2 (that is (1, 1), (1, 2) and
  (2, 2)) and every processed text, the n-grams that \<^verbatim>\<open>vectorize\<close> collects are all and
  only the n-grams of the words of the text, for every \<open>n\<close> from \<open>min_n\<close> to \<open>max_n\<close>.
\<close>

theorem collect_ngrams_up_to_bigrams:
  assumes "1 \<le> min_n" and "min_n \<le> max_n" and "max_n \<le> 2"
  shows "set (collect_ngrams (min_n, max_n) text) = spec_ngrams min_n max_n (split_sp text)"
proof -
  consider "min_n = 1 \<and> max_n = 1" | "min_n = 1 \<and> max_n = 2" | "min_n = 2 \<and> max_n = 2"
    using assms by arith
  then show ?thesis
  proof cases
    case 1
    then show ?thesis
      unfolding collect_ngrams_def spec_ngrams_Union by (simp add: set_extractNgrams)
  next
    case 2
    have "{1..2::nat} = {1, 2}" by auto
    then show ?thesis using 2
      unfolding collect_ngrams_def spec_ngrams_Union by (simp add: set_extractNgrams)
  next
    case 3
    then show ?thesis
      unfolding collect_ngrams_def spec_ngrams_Union by (simp add: set_extractNgrams)
  qed
qed

text \<open>
  The amended C2 at \<^verbatim>\<open>ngram_range = (1, 2)\<close> and the text \<^verbatim>\<open>a b\<close>: the two unigrams
  and the bigram.
\<close>

theorem collect_ngrams_up_to_bigrams_witness:
  "(1::nat) \<le> 1 \<and> (1::nat) \<le> 2 \<and> (2::nat) \<le> 2 \<and>
   set (collect_ngrams (1, 2) ''a b'') = spec_ngrams 1 2 (split_sp ''a b'') \<and>
   collect_ngrams (1, 2) ''a b'' = [''a'', ''b'', ''a b'']"
proof -
  have "set (collect_ngrams (1, 2) ''a b'') = spec_ngrams 1 2 (split_sp ''a b'')"
    using collect_ngrams_up_to_bigrams [of 1 2 "''a b''"] by simp
  moreover have "collect_ngrams (1, 2) ''a b'' = [''a'', ''b'', ''a b'']" by code_simp
  ultimately show ?thesis by simp
qed

text \<open>
  C2 as stated fails for a range that reaches beyond bigrams: with
  \<^verbatim>\<open>ngram_range = (1, 3)\<close> the trigram of the text \<^verbatim>\<open>a b c\<close> is an n-gram of the
  range, and the scorer does not collect it.
\<close>

theorem collect_ngrams_misses_trigram:
  "''a b c'' \<in> spec_ngrams 1 3 (split_sp ''a b c'') \<and>
   ''a b c'' \<notin> set (collect_ngrams (1, 3) ''a b c'')"
proof
  define g where "g = [''a'', ''b'', ''c'']"
  define t where "t = ''a b c''"
  have 1: "split_sp t = [] @ g @ []" unfolding g_def t_def by code_simp
  have 2: "t = join_sp g" unfolding g_def t_def by code_simp
  have 3: "1 \<le> length g" "length g \<le> 3" unfolding g_def by simp_all
  have "t \<in> spec_ngrams 1 3 (split_sp t)"
    unfolding spec_ngrams_def using 1 2 3 by blast
  then show "''a b c'' \<in> spec_ngrams 1 3 (split_sp ''a b c'')"
    unfolding t_def .
  have "collect_ngrams (1, 3) ''a b c'' = [''a'', ''b'', ''c'', ''a b'', ''b c'']"
    by code_simp
  then show "''a b c'' \<notin> set (collect_ngrams (1, 3) ''a b c'')"
    by simp
qed

section \<open>Feature lookup\<close>

lemma length_map_to_vocabulary [simp]:
  "length (map_to_vocabulary m ngs fs) = length fs"
  by (induction ngs arbitrary: fs) (auto split: option.splits)









section \<open>L2 normalisation\<close>

lemma rounding_zero: "rounding fl \<Longrightarrow> fl 0 = Num 0"
  and rounding_one: "rounding fl \<Longrightarrow> fl 1 = Num 1"
  by (simp_all add: rounding_def)



lemma rounding_exact: "rounding Num"
  by (simp add: rounding_def)































lemma zero_by_zero_norm: "js_div fl (Num 0) (Num 0) = NaN"
  by simp



















section \<open>Scoring\<close>

lemma js_add_NaN_right [simp]: "js_add fl a NaN = NaN"
  by (cases a) simp_all

lemma js_mul_NaN_right [simp]: "js_mul fl a NaN = NaN"
  by (cases a) simp_all

lemma js_div_NaN_right [simp]: "js_div fl a NaN = NaN"
  by (cases a) simp_all

lemma short_coef_ngrams:
  "collect_ngrams (ngram_range short_coef_model) (preprocessText (''a'' @ '' '' @ '''')) =
     [''a'']"
proof -
  have "collect_ngrams (1, 2) (preprocessText (''a'' @ '' '' @ '''')) = [''a'']"
    by code_simp
  then show ?thesis by (simp add: short_coef_model_def)
qed

lemma short_coef_fields:
  "vocabulary short_coef_model ''a'' = Some 0"
  "max_features short_coef_model = 2"
  "idf short_coef_model = [1]"
  "mtype short_coef_model = ''logistic_regression''"
  "coefficients short_coef_model = Some [1 / 2]"
  "intercept short_coef_model = Some 0"
  by (simp_all add: short_coef_model_def)

lemma short_coef_weighted:
  "weighted_features short_coef_model (''a'' @ '' '' @ '''') = [1, 0]"
  unfolding weighted_features_def short_coef_ngrams
  by (simp add: short_coef_fields idf_or_1_def js_index_def numeral_2_eq_2)

text \<open>The features of the text \<^verbatim>\<open>a\<close> are 1 and 0, whatever the rounding.\<close>

lemma short_coef_features:
  assumes "rounding fl"
  shows "vectorize fl short_coef_model (''a'' @ '' '' @ '''') = [Num 1, Num 0]"
proof -
  note fl = rounding_zero[OF assms] rounding_one[OF assms]
  have norm: "l2_norm fl [1, 0] = Num 1"
    by (simp add: l2_norm_def fl)
  show ?thesis
    unfolding vectorize_def Let_def short_coef_weighted norm
    by (simp add: fl)
qed

lemma length_vectorize: "length (vectorize fl m text) = max_features m"
  by (simp add: vectorize_def Let_def weighted_features_def)

lemma short_coef_score:
  "lr_score fl (Some [c]) [a, b] 0 score = Inr NaN"
  by (simp add: js_index_def to_number_def)

text \<open>
  C5. With the model data \<^verbatim>\<open>{type: "logistic_regression", coefficients: [0.5],
  intercept: 0, vocabulary: {"a": 0}, idf: [1], max_features: 2, ngram_range: [1, 2]}\<close>
  the call \<^verbatim>\<open>predict("a")\<close> returns a probability and a confidence that are NaN,
  whatever the rounding: the feature array has \<^verbatim>\<open>max_features\<close> entries, the loop
  reads \<^verbatim>\<open>this.coefficients[1]\<close>, which is \<^verbatim>\<open>undefined\<close>, and the product of
  \<^verbatim>\<open>undefined\<close> and a number is NaN.
\<close>

theorem predict_nan_for_short_coefficients:
  "predict fl short_coef_model ''a'' '''' =
     Inr (Some \<lparr> prediction = 0, probability = NaN, confidence = NaN \<rparr>)"
proof -
  have "length (vectorize fl short_coef_model (''a'' @ '' '' @ '''')) = 2"
    by (simp only: length_vectorize short_coef_fields)
  then obtain a b where features: "vectorize fl short_coef_model (''a'' @ '' '' @ '''') = [a, b]"
    by (auto simp: length_Suc_conv numeral_2_eq_2)
  have p: "sigmoid fl NaN = NaN"
    by (simp add: sigmoid_def)
  have r: "result_of fl NaN = \<lparr> prediction = 0, probability = NaN, confidence = NaN \<rparr>"
    by (simp add: result_of_def js_sub_def)
  have m: "mtype short_coef_model = ''logistic_regression''"
    "coefficients short_coef_model = Some [1 / 2]"
    by (simp_all add: short_coef_fields)
  show ?thesis
    unfolding predict_def Let_def features m short_coef_score
    by (simp add: p r)
qed


section \<open>The trainer's input\<close>

text \<open>
  With the columns \<^verbatim>\<open>title\<close> and \<^verbatim>\<open>description\<close> present as text columns,
  \<^verbatim>\<open>extract_features\<close> raises nothing.
\<close>

lemma extract_features_with_description:
  assumes "df ''title'' = Some (ObjectSeries ts)"
    and "df ''description'' = Some (ObjectSeries ds)"
  shows "\<exists>df'. extract_features df = Inr df'"
  using assms by (simp add: extract_features_def Let_def)

text \<open>
  C7. A CSV file with the columns \<^verbatim>\<open>title\<close> and \<^verbatim>\<open>label\<close> only passes the check of
  the required columns, and then \<^verbatim>\<open>extract_features\<close> raises
  \<^verbatim>\<open>KeyError: 'description'\<close>: the absence of the description column is a failure.
\<close>

theorem missing_description_raises:
  "train_main two_column_csv = Inl (KeyError ''description'')"
  by (simp add: train_main_def extract_features_def two_column_csv_def)


section \<open>The exporter\<close>

text \<open>
  C6. When the loaded model has neither \<^verbatim>\<open>coef_\<close> nor \<^verbatim>\<open>feature_log_prob_\<close>,
  \<^verbatim>\<open>export_to_json\<close> prints that the model type is not supported for JSON export and
  returns with the file system as it was: no file is written. Run from the command line
  with one of the three model names, the script then writes the JavaScript loader only,
  and the JSON output file is unchanged.
\<close>

theorem unsupported_model_writes_nothing:
  assumes "fs (model_path_of model_type) = Some (Pickle data)"
    and "m_coef (model data) = None"
    and "m_feature_log_prob (model data) = None"
  shows "export_to_json model_type output_file fs =
           Inr ([LoadingModel (model_path_of model_type), NotSupported, ConsiderTfjsOrOnnx],
                fs) \<and>
         (model_type \<in> {''naive_bayes'', ''logistic_regression'', ''random_forest''} \<longrightarrow>
            (\<exists>out fs'. export_main model_type fs = Inr (out, fs') \<and>
               NotSupported \<in> set out \<and>
               fs' ''models/model_for_extension.json'' =
                 fs ''models/model_for_extension.json''))"
proof -
  have 1: "\<And>output_file. export_to_json model_type output_file fs =
           Inr ([LoadingModel (model_path_of model_type), NotSupported, ConsiderTfjsOrOnnx],
                fs)"
    using assms by (simp add: export_to_json_def Let_def)
  show ?thesis
    by (simp add: 1 export_main_def create_js_model_loader_def)
qed

text \<open>C6 on a persisted random forest, exported with \<^verbatim>\<open>--model random_forest\<close>.\<close>

theorem unsupported_model_writes_nothing_witness:
  "export_to_json ''random_forest'' ''models/model_for_extension.json'' forest_fs =
     Inr ([LoadingModel ''models/random_forest_model.pkl'', NotSupported,
           ConsiderTfjsOrOnnx], forest_fs) \<and>
   (\<exists>out fs'. export_main ''random_forest'' forest_fs = Inr (out, fs') \<and>
      NotSupported \<in> set out \<and>
      fs' ''models/model_for_extension.json'' = forest_fs ''models/model_for_extension.json'')"
proof -
  have 1: "forest_fs (model_path_of ''random_forest'') = Some (Pickle forest_pair)"
    by (simp add: forest_fs_def)
  have 2: "m_coef (model forest_pair) = None"
    and 3: "m_feature_log_prob (model forest_pair) = None"
    by (simp_all add: forest_pair_def)
  have 4: "model_path_of ''random_forest'' = ''models/random_forest_model.pkl''"
    by (simp add: model_path_of_def)
  show ?thesis
    using unsupported_model_writes_nothing
      [where fs = forest_fs and model_type = "''random_forest''" and data = forest_pair
         and output_file = "''models/model_for_extension.json''", OF 1 2 3]
    by (simp add: 4)
qed

text \<open>
  A fitted linear model (a coefficient matrix with a row, and an intercept vector with
  an entry or no intercept at all) whose vectorizer holds Python integers as indices is
  exported, whatever the model name was.
\<close>

lemma export_linear_succeeds:
  assumes "fs (model_path_of model_type) = Some (Pickle data)"
    and "m_coef (model data) = Some (coef # rows)"
    and "m_intercept (model data) = None \<or> (\<exists>b bs. m_intercept (model data) = Some (b # bs))"
    and "list_all (\<lambda>(tok, index). json_int index \<noteq> None) (v_vocabulary (vectorizer data))"
  shows "\<exists>j. export_to_json model_type output_file fs =
               Inr ([LoadingModel (model_path_of model_type), ModelExported output_file,
                     ProductionNote], fs(output_file \<mapsto> Json j)) \<and>
             mtype j = ''logistic_regression'' \<and> coefficients j = Some coef"
  using assms
  by (auto simp: export_to_json_def Let_def write_export_def py_index_def)

text \<open>
  A fitted naive-bayes model for the two classes is exported, under the same condition,
  with the log-probabilities and the log-prior of class 1.
\<close>

lemma export_naive_bayes_succeeds:
  assumes "fs (model_path_of model_type) = Some (Pickle data)"
    and "m_coef (model data) = None"
    and "m_feature_log_prob (model data) = Some [logp0, logp1]"
    and "m_class_log_prior (model data) = Some [prior0, prior1]"
    and "list_all (\<lambda>(tok, index). json_int index \<noteq> None) (v_vocabulary (vectorizer data))"
  shows "\<exists>j. export_to_json model_type output_file fs =
               Inr ([LoadingModel (model_path_of model_type), ModelExported output_file,
                     ProductionNote], fs(output_file \<mapsto> Json j)) \<and>
             mtype j = ''naive_bayes'' \<and> feature_log_prob j = Some logp1 \<and>
             class_log_prior j = Some prior1"
  using assms
  by (auto simp: export_to_json_def Let_def write_export_def py_index_def)

text \<open>
  When the vocabulary of the vectorizer holds a \<^verbatim>\<open>numpy.int64\<close> index, as it does in
  every pair the trainer persists, the export of a fitted linear model ends in the
  \<^verbatim>\<open>TypeError\<close> of \<^verbatim>\<open>json.dump\<close>, and the output file is left truncated.
\<close>

lemma export_raises_on_numpy_index:
  assumes "fs (model_path_of model_type) = Some (Pickle data)"
    and "m_coef (model data) = Some (coef # rows)"
    and "m_intercept (model data) = None \<or> (\<exists>b bs. m_intercept (model data) = Some (b # bs))"
    and "(tok, NumpyInt64 n) \<in> set (v_vocabulary (vectorizer data))"
  shows "export_to_json model_type output_file fs =
           Inl (PyTypeError, fs(output_file \<mapsto> TruncatedJson ''logistic_regression''))"
proof -
  have "\<not> list_all (\<lambda>(tok, index). json_int index \<noteq> None) (v_vocabulary (vectorizer data))"
    using assms(4) by (force simp: list_all_iff)
  then show ?thesis
    using assms(1-3)
    by (auto simp: export_to_json_def Let_def write_export_def py_index_def)
qed

text \<open>
  C10. The exported \<^verbatim>\<open>type\<close> follows the attributes of the loaded object, for every
  model name: whenever \<^verbatim>\<open>export_to_json\<close> returns after loading a model that carries
  \<^verbatim>\<open>coef_\<close>, the output file holds an object of type \<^verbatim>\<open>logistic_regression\<close>;
  when the model carries no \<^verbatim>\<open>coef_\<close> but \<^verbatim>\<open>feature_log_prob_\<close>, it holds an object
  of type \<^verbatim>\<open>naive_bayes\<close>. When \<^verbatim>\<open>json.dump\<close> raises \<^verbatim>\<open>TypeError\<close> instead, the
  text it leaves in the output file begins with the type chosen in the same way. The
  model name occurs in the path of the file that is loaded and nowhere else.
\<close>

theorem export_type_from_attributes:
  assumes "fs (model_path_of model_type) = Some (Pickle data)"
  shows "(export_to_json model_type output_file fs = Inr (out, fs') \<longrightarrow>
            (m_coef (model data) \<noteq> None \<longrightarrow>
               (\<exists>j. fs' output_file = Some (Json j) \<and> mtype j = ''logistic_regression'')) \<and>
            (m_coef (model data) = None \<and> m_feature_log_prob (model data) \<noteq> None \<longrightarrow>
               (\<exists>j. fs' output_file = Some (Json j) \<and> mtype j = ''naive_bayes''))) \<and>
         (export_to_json model_type output_file fs = Inl (PyTypeError, fs') \<longrightarrow>
            (m_coef (model data) \<noteq> None \<longrightarrow>
               fs' output_file = Some (TruncatedJson ''logistic_regression'')) \<and>
            (m_coef (model data) = None \<longrightarrow>
               m_feature_log_prob (model data) \<noteq> None \<and>
               fs' output_file = Some (TruncatedJson ''naive_bayes'')))"
  using assms
  by (auto simp: export_to_json_def Let_def write_export_def py_index_def
      split: option.splits list.splits sum.splits if_splits)

text \<open>
  C10 on a linear model persisted under the name of the naive-bayes model: exported with
  \<^verbatim>\<open>--model naive_bayes\<close>, the object written has the type
  \<^verbatim>\<open>logistic_regression\<close>. And on a linear model whose vectorizer holds
  \<^verbatim>\<open>numpy.int64\<close> indices: the export raises \<^verbatim>\<open>TypeError\<close>, and the text left in the
  output file begins with the type \<^verbatim>\<open>logistic_regression\<close>.
\<close>

theorem export_type_from_attributes_witness:
  "(\<exists>out fs' j.
      export_to_json ''naive_bayes'' ''models/model_for_extension.json'' misnamed_fs =
        Inr (out, fs') \<and>
      m_coef (model linear_pair) \<noteq> None \<and>
      fs' ''models/model_for_extension.json'' = Some (Json j) \<and>
      mtype j = ''logistic_regression'') \<and>
   (\<exists>fs'.
      export_to_json ''logistic_regression'' ''models/model_for_extension.json'' fitted_fs =
        Inl (PyTypeError, fs') \<and>
      m_coef (model fitted_pair) \<noteq> None \<and>
      fs' ''models/model_for_extension.json'' = Some (TruncatedJson ''logistic_regression''))"
proof -
  have 1: "misnamed_fs (model_path_of ''naive_bayes'') = Some (Pickle linear_pair)"
    by (simp add: misnamed_fs_def)
  have 2: "m_coef (model linear_pair) = Some ([1, - 1] # [])"
    and 3: "m_intercept (model linear_pair) = None \<or>
            (\<exists>b bs. m_intercept (model linear_pair) = Some (b # bs))"
    and 4: "list_all (\<lambda>(tok, index). json_int index \<noteq> None)
              (v_vocabulary (vectorizer linear_pair))"
    by (simp_all add: linear_pair_def example_vectorizer_def)
  obtain out fs' where run:
    "export_to_json ''naive_bayes'' ''models/model_for_extension.json'' misnamed_fs =
       Inr (out, fs')"
    using export_linear_succeeds
      [where fs = misnamed_fs and model_type = "''naive_bayes''" and data = linear_pair,
       OF 1 2 3 4]
    by blast
  have nn: "m_coef (model linear_pair) \<noteq> None" using 2 by simp
  obtain j where j: "fs' ''models/model_for_extension.json'' = Some (Json j)"
    "mtype j = ''logistic_regression''"
    using export_type_from_attributes
      [where fs = misnamed_fs and model_type = "''naive_bayes''" and data = linear_pair
         and output_file = "''models/model_for_extension.json''" and out = out and fs' = fs',
       OF 1, THEN conjunct1, THEN mp, OF run, THEN conjunct1, THEN mp, OF nn]
    by blast
  have 5: "fitted_fs (model_path_of ''logistic_regression'') = Some (Pickle fitted_pair)"
    by (simp add: fitted_fs_def)
  have 6: "m_coef (model fitted_pair) = Some ([1, - 1] # [])"
    and 7: "m_intercept (model fitted_pair) = None \<or>
            (\<exists>b bs. m_intercept (model fitted_pair) = Some (b # bs))"
    and 8: "(''a'', NumpyInt64 0) \<in> set (v_vocabulary (vectorizer fitted_pair))"
    by (simp_all add: fitted_pair_def fitted_vectorizer_def)
  define fs'' where
    "fs'' = fitted_fs(''models/model_for_extension.json'' \<mapsto> TruncatedJson ''logistic_regression'')"
  have raise:
    "export_to_json ''logistic_regression'' ''models/model_for_extension.json'' fitted_fs =
       Inl (PyTypeError, fs'')"
    unfolding fs''_def
    using export_raises_on_numpy_index
      [where fs = fitted_fs and model_type = "''logistic_regression''" and data = fitted_pair,
       OF 5 6 7 8] .
  have nn': "m_coef (model fitted_pair) \<noteq> None" using 6 by simp
  have t: "fs'' ''models/model_for_extension.json'' = Some (TruncatedJson ''logistic_regression'')"
    using export_type_from_attributes
      [where fs = fitted_fs and model_type = "''logistic_regression''" and data = fitted_pair
         and output_file = "''models/model_for_extension.json''" and fs' = fs'',
       OF 5, THEN conjunct2, THEN mp, OF raise, THEN conjunct1, THEN mp, OF nn'] .
  show ?thesis using run nn j raise nn' t by blast
qed

end
